theory Spec2Isabelle
  imports Complex_Main
begin

section \<open>Data model\<close>

text \<open>
  The embedding follows \<^verbatim>\<open>omgtools/problems/gcodeschedulerproblem.py\<close>.
  Python floats are modelled as reals, so comparisons such as \<^verbatim>\<open>l_x != 0\<close> are
  exact comparisons of reals and rounding is not represented. A G-code point
  \<^verbatim>\<open>[x, y, z]\<close> is a triple, and so is the state of the tool that
  \<^verbatim>\<open>check_segments\<close> compares with the end of a segment. Every \<^verbatim>\<open>raise\<close> and
  every failing index of the source is a branch returning \<open>Inl\<close> of the
  exception. The look-ahead \<^verbatim>\<open>n_segments\<close> and the counter \<^verbatim>\<open>n_current_block\<close> are
  natural numbers. The solve-time statistics (\<^verbatim>\<open>update_times\<close>), the warning of
  \<^verbatim>\<open>check_segments\<close>, printing, plotting and storing are left out: no value
  modelled here depends on them.
\<close>

type_synonym point = "real \<times> real \<times> real"

datatype error =
  RuntimeError | IndexError | NameError | AttributeError | KeyError | LinAlgError

datatype direction = CW | CCW

datatype shape =
    Rectangle (width: real) (height: real) (orientation: real)
  | Ring (radius_in: real) (radius_out: real) (ring_start: point) (ring_end: point)
      (direction: direction)

text \<open>The type field of a G-code block; \<open>GOther\<close> stands for any other string.\<close>

datatype gtype = G00 | G01 | G02 | G03 | GOther

record gblock =
  block_type :: gtype
  block_start :: point
  block_end :: point
  block_radius :: real
  block_center :: point

text \<open>A pose is the six-entry list \<^verbatim>\<open>[x, y, z, orientation, 0., 0.]\<close>.\<close>

record pose =
  pose0 :: real
  pose1 :: real
  pose2 :: real
  pose3 :: real
  pose4 :: real
  pose5 :: real

text \<open>
  A room is the dictionary built by \<^verbatim>\<open>get_environment\<close>. The key
  \<^verbatim>\<open>'orientation'\<close> is optional (\<^verbatim>\<open>create_segment\<close> tests for its presence).
\<close>

record room =
  room_shape :: shape
  room_pose :: pose
  room_position :: "real \<times> real"
  room_draw :: bool
  room_start :: point
  room_end :: point
  room_orientation :: "real option"

record border =
  border_shape :: shape
  border_pose :: pose
  border_orientation :: real
  border_limits :: "(real \<times> real \<times> real \<times> real) option"

record segment =
  seg_border :: border
  seg_number :: nat
  seg_start :: point
  seg_end :: point

text \<open>
  The tool, as far as this file reads it: the Greville abscissae of its spline
  basis and its velocity limits. An attribute that may be absent is an option.
\<close>

record vehicle =
  greville :: "real list"
  vmax :: "real option"
  vxyzmax :: "(real \<times> real \<times> real) option"

text \<open>
  One spline of a solved segment (one per axis), and the optimizer's variables
  after a solve: the splines \<^verbatim>\<open>splines_seg<k>\<close> and the motion times \<^verbatim>\<open>T<k>\<close>.
\<close>

record spline =
  spl_knots :: "real list"
  spl_degree :: nat
  spl_coeffs :: "real list"

record solution =
  splines_seg :: "nat \<rightharpoonup> spline list"
  T :: "nat \<rightharpoonup> real"

text \<open>
  The local problem handed to the optimizer, with the arguments it was built
  from. \<open>var_result\<close> is the attribute \<^verbatim>\<open>father._var_result\<close>, present once
  the problem holds a solution.
\<close>

record local_problem =
  lp_rooms :: "room list"
  lp_segments :: "segment list"
  lp_n_segments :: nat
  lp_init_guess :: "real list list list"
  var_result :: "solution option"

record scheduler =
  rooms :: "room list"
  n_current_block :: nat
  curr_state :: point
  goal_state :: point
  n_segments :: nat
  segments :: "segment list"
  motion_times :: "real list"
  init_guess :: "real list list list"
  cnt :: nat
  local_problem :: "local_problem option"
  vehicle :: vehicle

section \<open>Corridor builder\<close>

text \<open>\<^verbatim>\<open>np.arctan2(y, x)\<close> on reals.\<close>

definition arctan2 :: "real \<Rightarrow> real \<Rightarrow> real" where
  "arctan2 y x =
     (if 0 < x then arctan (y / x)
      else if x < 0 \<and> 0 \<le> y then arctan (y / x) + pi
      else if x < 0 then arctan (y / x) - pi
      else if 0 < y then pi / 2
      else if y < 0 then - (pi / 2)
      else 0)"

text \<open>
  Modelled from the spec: \<^verbatim>\<open>distance_between_points\<close> of
  \<^verbatim>\<open>omgtools/basics/geometry.py\<close> is not among the sources; the spec calls it the
  Euclidean distance of start and end.
\<close>

definition distance_between_points :: "point \<Rightarrow> point \<Rightarrow> real" where
  "distance_between_points p q =
     (case (p, q) of ((px, py, pz), (qx, qy, qz)) \<Rightarrow>
        sqrt ((qx - px)\<^sup>2 + (qy - py)\<^sup>2 + (qz - pz)\<^sup>2))"

definition sub_point :: "point \<Rightarrow> point \<Rightarrow> point" where
  "sub_point p c =
     (case (p, c) of ((px, py, pz), (cx, cy, cz)) \<Rightarrow> (px - cx, py - cy, pz - cz))"

text \<open>
  The body of the loop of \<^verbatim>\<open>get_environment\<close> up to the shape and pose of the
  block. For a block type outside G00..G03 neither branch runs: the variables
  \<^verbatim>\<open>shape\<close> and \<^verbatim>\<open>pose\<close> keep the values of the previous iteration, and are
  unbound (NameError) on the first one. For an arc the source extends the list
  \<^verbatim>\<open>block.center\<close> itself by three zeros to make the pose; blocks are values
  here, so the pose is built and the block unchanged.
\<close>

definition block_shape_pose ::
  "real \<Rightarrow> (shape \<times> pose) option \<Rightarrow> gblock \<Rightarrow> error + (shape \<times> pose)" where
  "block_shape_pose tolerance prev block =
     (if block_type block = G00 \<or> block_type block = G01 then
        (case (block_start block, block_end block) of ((sx, sy, sz), (ex, ey, ez)) \<Rightarrow>
          (let w = distance_between_points (block_start block) (block_end block);
               h = tolerance;
               ori = arctan2 (ey - sy) (ex - sx)
           in Inr (Rectangle w h ori,
                   \<lparr>pose0 = sx + (ex - sx) * 0.5, pose1 = sy + (ey - sy) * 0.5,
                    pose2 = sz + (ez - sz) * 0.5, pose3 = ori, pose4 = 0, pose5 = 0\<rparr>)))
      else if block_type block = G02 \<or> block_type block = G03 then
        (let r_in = block_radius block - tolerance;
             r_out = block_radius block + tolerance;
             st = sub_point (block_start block) (block_center block);
             en = sub_point (block_end block) (block_center block);
             dir = (if block_type block = G02 then CW else CCW)
         in (case block_center block of (cx, cy, cz) \<Rightarrow>
               Inr (Ring r_in r_out st en dir,
                    \<lparr>pose0 = cx, pose1 = cy, pose2 = cz, pose3 = 0, pose4 = 0, pose5 = 0\<rparr>)))
      else (case prev of None \<Rightarrow> Inl NameError | Some sp \<Rightarrow> Inr sp))"

definition make_room :: "shape \<times> pose \<Rightarrow> gblock \<Rightarrow> room" where
  "make_room sp block =
     \<lparr>room_shape = fst sp, room_pose = snd sp,
      room_position = (pose0 (snd sp), pose1 (snd sp)), room_draw = True,
      room_start = block_start block, room_end = block_end block,
      room_orientation = None\<rparr>"

fun get_environment_from ::
  "real \<Rightarrow> (shape \<times> pose) option \<Rightarrow> gblock list \<Rightarrow> error + room list" where
  "get_environment_from tolerance prev [] = Inr []"
| "get_environment_from tolerance prev (block # GCode) =
     (case block_shape_pose tolerance prev block of
        Inl e \<Rightarrow> Inl e
      | Inr sp \<Rightarrow>
          (case get_environment_from tolerance (Some sp) GCode of
             Inl e \<Rightarrow> Inl e
           | Inr rs \<Rightarrow> Inr (make_room sp block # rs)))"

definition get_environment :: "gblock list \<Rightarrow> real \<Rightarrow> error + room list" where
  "get_environment GCode tolerance = get_environment_from tolerance None GCode"

section \<open>Centerline guess generator\<close>

text \<open>\<^verbatim>\<open>np.linspace(a, b, n)\<close>: \<open>n\<close> samples \<open>a + i * step\<close>, \<open>step = (b - a) / (n - 1)\<close>.\<close>

definition linspace :: "real \<Rightarrow> real \<Rightarrow> nat \<Rightarrow> real list" where
  "linspace a b n = map (\<lambda>i. a + real i * ((b - a) / real (n - 1))) [0..<n]"

text \<open>
  The rows of the array \<^verbatim>\<open>points\<close>: start and end of a straight segment, or 50
  samples of the arc of mean radius between the start and end angles, the angles
  unwrapped by the direction of the ring.
\<close>

definition centerline_points :: "segment \<Rightarrow> real list \<times> real list \<times> real list" where
  "centerline_points seg =
     (case border_shape (seg_border seg) of
        Rectangle w h ori \<Rightarrow>
          (case (seg_start seg, seg_end seg) of ((sx, sy, sz), (ex, ey, ez)) \<Rightarrow>
             ([sx, ex], [sy, ey], [sz, ez]))
      | Ring r_in r_out rs re dir \<Rightarrow>
          (case (seg_start seg, seg_end seg) of ((sx, sy, sz), (ex, ey, ez)) \<Rightarrow>
            (let po = border_pose (seg_border seg);
                 start_angle = arctan2 (sy - pose1 po) (sx - pose0 po);
                 end_angle = arctan2 (ey - pose1 po) (ex - pose0 po);
                 start_angle' =
                   (if dir = CW \<and> start_angle < end_angle then start_angle + 2 * pi
                    else start_angle);
                 end_angle' =
                   (if dir = CCW \<and> start_angle > end_angle then end_angle + 2 * pi
                    else end_angle);
                 s = linspace start_angle' end_angle' 50;
                 radius = (r_in + r_out) * 0.5;
                 xs = map (\<lambda>a. pose0 po + radius * cos a) s;
                 ys = map (\<lambda>a. pose1 po + radius * sin a) s
             in (xs, ys, map (\<lambda>v. 0 * v) xs))))"

text \<open>
  The first loop: \<^verbatim>\<open>l += p[i+1] - p[i]\<close> over consecutive waypoints of one row,
  started at \<open>l\<close>.
\<close>

fun total_length :: "real \<Rightarrow> real list \<Rightarrow> real" where
  "total_length l (a # b # ps) = total_length (l + (b - a)) (b # ps)"
| "total_length l ps = l"

text \<open>
  The second loop for one row: the entries appended to the time vector after
  its last entry \<open>t\<close>.
\<close>

fun time_steps :: "real \<Rightarrow> real \<Rightarrow> real list \<Rightarrow> real list" where
  "time_steps l t (a # b # ps) =
     (let t' = (if l \<noteq> 0 then t + (b - a) / l else 0) in t' # time_steps l t' (b # ps))"
| "time_steps l t ps = []"

definition time_vector :: "real \<Rightarrow> real list \<Rightarrow> real list" where
  "time_vector l ps = 0 # time_steps l 0 ps"

text \<open>The third loop: an entry within \<open>1e-5\<close> below 1 (or above it) becomes 1.\<close>

definition make_exact :: "real list \<Rightarrow> real list" where
  "make_exact ts = map (\<lambda>t. if 1 - t < 1 / 100000 then 1 else t) ts"

definition all_zero :: "real list \<Rightarrow> bool" where
  "all_zero ts = list_all (\<lambda>t. t = 0) ts"

text \<open>\<^verbatim>\<open>vmax\<close> if the tool has one, else half the sum of the axis limits.\<close>

definition max_vel :: "vehicle \<Rightarrow> error + real" where
  "max_vel v =
     (case vmax v of
        Some m \<Rightarrow> Inr m
      | None \<Rightarrow>
          (case vxyzmax v of
             Some (vx, vy, vz) \<Rightarrow> Inr ((vx + vy + vz) * 0.5)
           | None \<Rightarrow> Inl AttributeError))"

text \<open>
  \<^verbatim>\<open>init_guess[-3] = init_guess[-1]\<close> and \<^verbatim>\<open>init_guess[-4] = init_guess[-1]\<close> on
  the rows of the guess; an index before the first row raises IndexError.
\<close>

definition set_final_rows :: "'a list \<Rightarrow> error + 'a list" where
  "set_final_rows g =
     (let n = length g in
      if n < 3 then Inl IndexError
      else (let g1 = g[n - 3 := g ! (n - 1)] in
            if n < 4 then Inl IndexError
            else Inr (g1[n - 4 := g1 ! (n - 1)])))"

text \<open>
  The three time vectors after the exactness pass and the borrowing of a
  parameterisation by an axis without displacement, in the order of the source.
\<close>

definition borrow_times ::
  "real list \<times> real list \<times> real list \<Rightarrow> real list \<times> real list \<times> real list" where
  "borrow_times tv =
     (case tv of (time_x, time_y, time_z) \<Rightarrow>
       (let time_x1 = (if all_zero time_x
                       then (if \<not> all_zero time_y then time_y else time_z)
                       else time_x);
            time_y1 = (if all_zero time_y
                       then (if \<not> all_zero time_x1 then time_x1 else time_z)
                       else time_y);
            time_z1 = (if all_zero time_z
                       then (if \<not> all_zero time_x1 then time_x1 else time_y1)
                       else time_z)
        in (time_x1, time_y1, time_z1)))"

text \<open>
  The time vectors of the three axes after the exactness pass: for each axis
  the accumulated displacement of the first loop normalises the steps of the
  second.
\<close>

definition time_vectors :: "segment \<Rightarrow> real list \<times> real list \<times> real list" where
  "time_vectors seg =
     (case centerline_points seg of (x, y, z) \<Rightarrow>
        (make_exact (time_vector (total_length 0 x) x),
         make_exact (time_vector (total_length 0 y) y),
         make_exact (time_vector (total_length 0 z) z)))"

text \<open>
  The array \<^verbatim>\<open>np.c_[coeffs_x, coeffs_y, coeffs_z]\<close>: row \<open>i\<close> holds the three
  interpolants evaluated at the Greville abscissa \<open>i\<close>. The first argument
  stands for scipy's
  \<^verbatim>\<open>interp1d(t, v, kind='linear', bounds_error=False, fill_value=1.)\<close>: applied to
  the nodes, their values and an abscissa it gives the interpolated value.
\<close>

definition coefficient_rows ::
  "(real list \<Rightarrow> real list \<Rightarrow> real \<Rightarrow> real) \<Rightarrow> real list \<Rightarrow> segment \<Rightarrow> real list list" where
  "coefficient_rows interp1d g seg =
     (case centerline_points seg of (x, y, z) \<Rightarrow>
       (case borrow_times (time_vectors seg) of (time_x, time_y, time_z) \<Rightarrow>
         (let coeffs_x = map (interp1d time_x x) g;
              coeffs_y = map (interp1d time_y y) g;
              coeffs_z = map (interp1d time_z z) g
          in map (\<lambda>i. [coeffs_x ! i, coeffs_y ! i, coeffs_z ! i]) [0..<length g])))"

definition length_to_travel :: "segment \<Rightarrow> real" where
  "length_to_travel seg =
     (case centerline_points seg of (x, y, z) \<Rightarrow>
        sqrt ((total_length 0 x)\<^sup>2 + (total_length 0 y)\<^sup>2 + (total_length 0 z)\<^sup>2))"

text \<open>
  \<^verbatim>\<open>get_init_guess_new_segment\<close>. The method reads the tool of the scheduler and
  nothing else of it, and changes nothing. The result is the rows
  \<^verbatim>\<open>[cx, cy, cz]\<close> of the guess and the motion time.
\<close>

definition get_init_guess_new_segment ::
  "(real list \<Rightarrow> real list \<Rightarrow> real \<Rightarrow> real) \<Rightarrow> scheduler \<Rightarrow> segment
     \<Rightarrow> error + (real list list \<times> real)" where
  "get_init_guess_new_segment interp1d self seg =
     (case time_vectors seg of (time_x, time_y, time_z) \<Rightarrow>
        if all_zero time_x \<and> all_zero time_y \<and> all_zero time_z then Inl RuntimeError
        else
          (let init_guess = coefficient_rows interp1d (greville (vehicle self)) seg in
           (case max_vel (vehicle self) of
              Inl e \<Rightarrow> Inl e
            | Inr mv \<Rightarrow>
                (let motion_time = length_to_travel seg / (mv * 0.5) in
                 (case set_final_rows init_guess of
                    Inl e \<Rightarrow> Inl e
                  | Inr g' \<Rightarrow> Inr (g', motion_time))))))"

section \<open>Collaborators outside this file\<close>

text \<open>
  What the scheduler calls and does not define, taken as parameters:
  scipy's \<^verbatim>\<open>interp1d\<close> (linear, no bounds error, fill value 1) and \<^verbatim>\<open>la.solve\<close>,
  which raises LinAlgError on a singular matrix; \<^verbatim>\<open>concat_splines\<close>, whose
  result for axis \<open>l\<close> is evaluated on a list of abscissae; the Greville
  abscissae and the evaluation matrix of \<^verbatim>\<open>BSplineBasis(knots, degree)\<close>; the
  constructor of the local problem, its \<^verbatim>\<open>reset_init_guess\<close>, \<^verbatim>\<open>solve\<close> and
  \<^verbatim>\<open>stop_criterium\<close>; and the state of the tool read after a solve.
\<close>

record externals =
  ext_interp1d :: "real list \<Rightarrow> real list \<Rightarrow> real \<Rightarrow> real"
  ext_la_solve :: "real list list \<Rightarrow> real list \<Rightarrow> error + real list"
  ext_concat_splines ::
    "spline list \<Rightarrow> spline list \<Rightarrow> real \<Rightarrow> real \<Rightarrow> nat \<Rightarrow> real list \<Rightarrow> real list"
  ext_basis_greville :: "real list \<Rightarrow> nat \<Rightarrow> real list"
  ext_basis_eval :: "real list \<Rightarrow> nat \<Rightarrow> real list \<Rightarrow> real list list"
  ext_GCodeProblem :: "vehicle \<Rightarrow> room list \<Rightarrow> segment list \<Rightarrow> nat \<Rightarrow> local_problem"
  ext_reset_init_guess :: "real list list list \<Rightarrow> local_problem \<Rightarrow> local_problem"
  ext_solve :: "local_problem \<Rightarrow> real \<Rightarrow> real \<Rightarrow> local_problem"
  ext_stop_criterium :: "local_problem \<Rightarrow> real \<Rightarrow> real \<Rightarrow> bool"
  ext_vehicle_state :: "local_problem \<Rightarrow> point"

section \<open>Errors and indexing\<close>

definition bind_err :: "error + 'a \<Rightarrow> ('a \<Rightarrow> error + 'b) \<Rightarrow> error + 'b" where
  "bind_err m f = (case m of Inl e \<Rightarrow> Inl e | Inr x \<Rightarrow> f x)"

text \<open>A loop that collects one result per element and stops at the first exception.\<close>

fun map_err :: "('a \<Rightarrow> error + 'b) \<Rightarrow> 'a list \<Rightarrow> error + 'b list" where
  "map_err f [] = Inr []"
| "map_err f (x # xs) =
     (case f x of
        Inl e \<Rightarrow> Inl e
      | Inr y \<Rightarrow> (case map_err f xs of Inl e \<Rightarrow> Inl e | Inr ys \<Rightarrow> Inr (y # ys)))"

text \<open>\<^verbatim>\<open>xs[i]\<close> of a Python list: a negative index counts from the end.\<close>

definition py_get :: "'a list \<Rightarrow> int \<Rightarrow> error + 'a" where
  "py_get xs i =
     (if 0 \<le> i \<and> i < int (length xs) then Inr (xs ! nat i)
      else if i < 0 \<and> - int (length xs) \<le> i then Inr (xs ! nat (int (length xs) + i))
      else Inl IndexError)"

section \<open>Reading the optimizer's variables\<close>

definition solved :: "scheduler \<Rightarrow> bool" where
  "solved self =
     (case local_problem self of None \<Rightarrow> False | Some lp \<Rightarrow> var_result lp \<noteq> None)"

definition get_solution :: "scheduler \<Rightarrow> error + solution" where
  "get_solution self =
     (case local_problem self of
        None \<Rightarrow> Inl AttributeError
      | Some lp \<Rightarrow> (case var_result lp of None \<Rightarrow> Inl AttributeError | Some sol \<Rightarrow> Inr sol))"

definition get_splines :: "scheduler \<Rightarrow> nat \<Rightarrow> error + spline list" where
  "get_splines self k =
     bind_err (get_solution self)
       (\<lambda>sol. case splines_seg sol k of None \<Rightarrow> Inl KeyError | Some s \<Rightarrow> Inr s)"

definition get_T :: "scheduler \<Rightarrow> nat \<Rightarrow> error + real" where
  "get_T self k =
     bind_err (get_solution self)
       (\<lambda>sol. case T sol k of None \<Rightarrow> Inl KeyError | Some t \<Rightarrow> Inr t)"

section \<open>Solution stitcher\<close>

text \<open>
  The first Greville point moves inwards by 1 percent of the first interval,
  then the last one by 1 percent of the last interval.
\<close>

definition shift_greville :: "real list \<Rightarrow> error + real list" where
  "shift_greville grev =
     (let n = length grev in
      if n < 2 then Inl IndexError
      else (let g1 = grev[0 := grev ! 0 + (grev ! 1 - grev ! 0) * 0.01]
            in Inr (g1[n - 1 := g1 ! (n - 1) - (g1 ! (n - 1) - g1 ! (n - 2)) * 0.01])))"

text \<open>The body of the loop over the axes of \<^verbatim>\<open>get_init_guess_combined_segment\<close>.\<close>

definition combined_axis ::
  "externals \<Rightarrow> spline list \<Rightarrow> spline list \<Rightarrow> real \<Rightarrow> real \<Rightarrow> nat \<Rightarrow> error + real list" where
  "combined_axis ext spl1 spl2 time1 time2 l =
     (let motion_time = time1 + time2;
          degree = spl_degree (spl1 ! l);
          knots = map (\<lambda>k. k * motion_time) (spl_knots (spl1 ! l))
      in bind_err (shift_greville (ext_basis_greville ext knots degree))
           (\<lambda>grev_bc.
              (let eval_sc = ext_concat_splines ext spl1 spl2 time1 time2 l grev_bc;
                   eval_bc = ext_basis_eval ext knots degree grev_bc
               in ext_la_solve ext eval_bc eval_sc)))"

definition get_init_guess_combined_segment ::
  "externals \<Rightarrow> scheduler \<Rightarrow> error + (real list list \<times> real)" where
  "get_init_guess_combined_segment ext self =
     bind_err (get_splines self 0) (\<lambda>spl1.
     bind_err (get_splines self 1) (\<lambda>spl2.
     bind_err (get_T self 0) (\<lambda>time1.
     bind_err (get_T self 1) (\<lambda>time2.
     bind_err (map_err (combined_axis ext spl1 spl2 time1 time2) [0..<length spl1])
       (\<lambda>coeffs. Inr (transpose coeffs, time1 + time2))))))"

section \<open>Initial guess for the window\<close>

text \<open>
  The guess of an unchanged segment \<open>k\<close> of the previous window: its
  coefficient array and its motion time.
\<close>

definition old_guess :: "scheduler \<Rightarrow> nat \<Rightarrow> error + (real list list \<times> real)" where
  "old_guess self k =
     bind_err (get_splines self k) (\<lambda>spl.
     bind_err (get_T self k) (\<lambda>t. Inr (transpose (map spl_coeffs spl), t)))"

text \<open>
  \<^verbatim>\<open>get_init_guess\<close>: with a solved local problem, the stitched guess for the
  first two segments (more than one segment), the old guesses of segments
  \<open>2 .. n_segments - 1\<close>, and a centerline guess for the segment at index
  \<open>n_segments - 1\<close> only; without one, a centerline guess for the segments at
  indices \<open>0 .. n_segments - 1\<close>. The calls that hand the guess and the start and
  terminal conditions to the tool change no field of the scheduler; of them
  only the read of \<^verbatim>\<open>self.segments[-1]\<close> is kept, which raises on an empty window.
\<close>

definition get_init_guess ::
  "externals \<Rightarrow> scheduler \<Rightarrow> error + (real list list list \<times> real list)" where
  "get_init_guess ext self =
     bind_err
       (if solved self then
          bind_err (if 1 < n_segments self
                    then bind_err (get_init_guess_combined_segment ext self) (\<lambda>g. Inr [g])
                    else Inr [])
            (\<lambda>first.
               bind_err (if 2 < n_segments self
                         then map_err (old_guess self) [2..<n_segments self]
                         else Inr [])
                 (\<lambda>kept. Inr (first @ kept, [int (n_segments self) - 1])))
        else Inr ([], map int [0..<n_segments self]))
       (\<lambda>(guesses, guess_idx).
          bind_err
            (map_err (\<lambda>k. bind_err (py_get (segments self) k)
                              (get_init_guess_new_segment (ext_interp1d ext) self))
               guess_idx)
            (\<lambda>new. bind_err (py_get (segments self) (- 1))
               (\<lambda>final. Inr (map fst (guesses @ new), map snd (guesses @ new)))))"

section \<open>Segment window and scheduler loop\<close>

definition create_segment :: "scheduler \<Rightarrow> room \<Rightarrow> segment" where
  "create_segment self block =
     (let orientation = (case room_orientation block of Some ori \<Rightarrow> ori | None \<Rightarrow> 0);
          limits =
            (case room_shape block of
               Rectangle w h ori \<Rightarrow>
                 Some (pose0 (room_pose block) - w * 0.5, pose1 (room_pose block) - h * 0.5,
                       pose0 (room_pose block) + w * 0.5, pose1 (room_pose block) + h * 0.5)
             | Ring r_in r_out rs re dir \<Rightarrow> None)
      in \<lparr>seg_border = \<lparr>border_shape = room_shape block, border_pose = room_pose block,
                          border_orientation = orientation, border_limits = limits\<rparr>,
          seg_number = n_current_block self,
          seg_start = room_start block, seg_end = room_end block\<rparr>)"

text \<open>
  \<^verbatim>\<open>check_segments\<close>: True when some coordinate of the current state differs
  from the end of the first segment of the window.
\<close>

definition check_segments :: "scheduler \<Rightarrow> error + bool" where
  "check_segments self =
     (case segments self of
        [] \<Rightarrow> Inl IndexError
      | seg0 # rest \<Rightarrow>
          (case (curr_state self, seg_end seg0) of ((cx, cy, cz), (ex, ey, ez)) \<Rightarrow>
             Inr (cx \<noteq> ex \<or> cy \<noteq> ey \<or> cz \<noteq> ez)))"

definition update_segments :: "externals \<Rightarrow> scheduler \<Rightarrow> error + scheduler" where
  "update_segments ext self =
     (let s1 = self\<lparr>segments := drop 1 (segments self)\<rparr> in
      bind_err (py_get (rooms s1) (int (n_current_block s1) + (int (n_segments s1) - 1)))
        (\<lambda>block.
           (let s2 = s1\<lparr>segments := segments s1 @ [create_segment s1 block]\<rparr> in
            bind_err (get_init_guess ext s2)
              (\<lambda>(g, ts). Inr (s2\<lparr>init_guess := g, motion_times := ts\<rparr>)))))"

definition generate_problem :: "externals \<Rightarrow> scheduler \<Rightarrow> local_problem" where
  "generate_problem ext self =
     ext_GCodeProblem ext (vehicle self)
       (take (n_segments self) (drop (n_current_block self) (rooms self)))
       (segments self) (n_segments self)"

definition reinitialize :: "externals \<Rightarrow> scheduler \<Rightarrow> error + scheduler" where
  "reinitialize ext self =
     (let next_blocks = take (n_segments self) (drop (n_current_block self) (rooms self));
          s1 = self\<lparr>segments := map (create_segment self) next_blocks\<rparr>;
          s2 = s1\<lparr>cnt := length (rooms s1)\<rparr>
      in bind_err (get_init_guess ext s2)
           (\<lambda>(g, ts).
              (let s3 = s2\<lparr>motion_times := ts\<rparr> in
               Inr (s3\<lparr>local_problem :=
                         Some (ext_reset_init_guess ext g (generate_problem ext s3))\<rparr>))))"

text \<open>
  The loop of the branch that keeps the window:
  \<^verbatim>\<open>self.motion_times[k] = ...get_variables(self.local_problem, 'T'+str(k))\<close>.
\<close>

fun refresh_motion_times :: "scheduler \<Rightarrow> nat list \<Rightarrow> real list \<Rightarrow> error + real list" where
  "refresh_motion_times self [] ts = Inr ts"
| "refresh_motion_times self (k # ks) ts =
     bind_err (get_T self k)
       (\<lambda>t. if k < length ts then refresh_motion_times self ks (ts[k := t])
             else Inl IndexError)"

definition solve :: "externals \<Rightarrow> scheduler \<Rightarrow> real \<Rightarrow> real \<Rightarrow> error + scheduler" where
  "solve ext self current_time update_time =
     bind_err (check_segments self) (\<lambda>segments_valid.
     bind_err
       (if \<not> segments_valid then
          bind_err
            (update_segments ext (self\<lparr>n_current_block := n_current_block self + 1\<rparr>))
            (\<lambda>s. Inr (s\<lparr>local_problem :=
                          Some (ext_reset_init_guess ext (init_guess s)
                                  (generate_problem ext s))\<rparr>))
        else
          bind_err (refresh_motion_times self [0..<n_segments self] (motion_times self))
            (\<lambda>ts. Inr (self\<lparr>motion_times := ts\<rparr>)))
       (\<lambda>s. case local_problem s of
               None \<Rightarrow> Inl AttributeError
             | Some lp \<Rightarrow>
                 (let lp' = ext_solve ext lp current_time update_time in
                  Inr (s\<lparr>local_problem := Some lp',
                         curr_state := ext_vehicle_state ext lp'\<rparr>))))"

text \<open>
  \<^verbatim>\<open>stop_criterium\<close>. The result is \<open>Some True\<close>, \<open>Some False\<close>, or \<open>None\<close> for
  Python's \<^verbatim>\<open>None\<close>, returned when the function ends without a \<^verbatim>\<open>return\<close>.
\<close>

definition stop_criterium :: "externals \<Rightarrow> scheduler \<Rightarrow> real \<Rightarrow> real \<Rightarrow> error + bool option" where
  "stop_criterium ext self current_time update_time =
     bind_err (py_get (segments self) (- 1)) (\<lambda>final.
       if seg_end final = goal_state self then
         (case local_problem self of
            None \<Rightarrow> Inl AttributeError
          | Some lp \<Rightarrow>
              if ext_stop_criterium ext lp current_time update_time then Inr (Some True)
              else Inr None)
       else Inr (Some False))"

section \<open>Concrete programs and tools\<close>

text \<open>Inputs at which the properties below are evaluated.\<close>

text \<open>A half circle of radius 1 about the origin, from (1, 0, 0) to (-1, 0, 0).\<close>

definition demo_arc :: "direction \<Rightarrow> gblock" where
  "demo_arc d = \<lparr>block_type = (if d = CW then G02 else G03), block_start = (1, 0, 0), block_end = (-1, 0, 0),
     block_radius = 1, block_center = (0, 0, 0)\<rparr>"

text \<open>
  A linear interpolant over ascending nodes, with the value 1 outside them: an
  instance of the interpolation parameter.
\<close>

fun interp_nodes :: "(real \<times> real) list \<Rightarrow> real \<Rightarrow> real option" where
  "interp_nodes ((t0, v0) # (t1, v1) # ps) t =
     (if t0 \<le> t \<and> t \<le> t1 then Some (v0 + (v1 - v0) * ((t - t0) / (t1 - t0)))
      else interp_nodes ((t1, v1) # ps) t)"
| "interp_nodes ps t = None"

definition linear_interp1d :: "real list \<Rightarrow> real list \<Rightarrow> real \<Rightarrow> real" where
  "linear_interp1d ts vs t = (case interp_nodes (zip ts vs) t of Some v \<Rightarrow> v | None \<Rightarrow> 1)"

text \<open>A tool whose basis has five Greville abscissae and whose top speed is 1.\<close>

definition demo_vehicle :: vehicle where
  "demo_vehicle = \<lparr>greville = [0, 1/4, 1/2, 3/4, 1], vmax = Some 1, vxyzmax = None\<rparr>"

text \<open>
  A straight block from \<open>a\<close> to \<open>b\<close>, the room \<^verbatim>\<open>get_environment\<close> builds for it with
  tolerance 1/10, and a scheduler over the rooms of the program of two straight
  blocks (0, 0, 0) to (2, 0, 0) to (2, 2, 0), with a look-ahead of 1.
\<close>

definition line_block :: "point \<Rightarrow> point \<Rightarrow> gblock" where
  "line_block a b =
     \<lparr>block_type = G01, block_start = a, block_end = b, block_radius = 0,
      block_center = (0, 0, 0)\<rparr>"

definition line_room :: "point \<Rightarrow> point \<Rightarrow> room" where
  "line_room a b =
     (case (a, b) of ((sx, sy, sz), (ex, ey, ez)) \<Rightarrow>
        make_room
          (Rectangle (distance_between_points a b) (1/10) (arctan2 (ey - sy) (ex - sx)),
           \<lparr>pose0 = sx + (ex - sx) * 0.5, pose1 = sy + (ey - sy) * 0.5,
            pose2 = sz + (ez - sz) * 0.5, pose3 = arctan2 (ey - sy) (ex - sx),
            pose4 = 0, pose5 = 0\<rparr>)
          (line_block a b))"

definition demo_scheduler :: scheduler where
  "demo_scheduler =
     \<lparr>rooms = [line_room (0, 0, 0) (2, 0, 0), line_room (2, 0, 0) (2, 2, 0)],
      n_current_block = 0, curr_state = (0, 0, 0), goal_state = (2, 2, 0), n_segments = 1,
      segments = [], motion_times = [], init_guess = [], cnt = 0, local_problem = None,
      vehicle = demo_vehicle\<rparr>"

definition line_segment :: "point \<Rightarrow> point \<Rightarrow> segment" where
  "line_segment a b = create_segment demo_scheduler (line_room a b)"

text \<open>
  Instances of the collaborators. The optimizer's variables of a problem hold
  a spline of degree 1 per axis and the motion time \<open>1 + k\<close> for every segment
  \<open>k\<close>; a new problem holds them from its construction; after a solve the tool
  stands at the end of the first segment of the window. The basis evaluates to
  the identity matrix, and the linear solver is the one for diagonal systems:
  it raises LinAlgError when an entry of the diagonal is zero.
\<close>

definition demo_spline :: spline where
  "demo_spline = \<lparr>spl_knots = [0, 0, 1, 1], spl_degree = 1, spl_coeffs = [0, 1]\<rparr>"

definition demo_solution :: solution where
  "demo_solution =
     \<lparr>splines_seg = (\<lambda>k. Some [demo_spline, demo_spline, demo_spline]),
      T = (\<lambda>k. Some (1 + real k))\<rparr>"

definition diagonal_solve :: "real list list \<Rightarrow> real list \<Rightarrow> error + real list" where
  "diagonal_solve a b =
     (if list_ex (\<lambda>i. a ! i ! i = 0) [0..<length a] then Inl LinAlgError
      else Inr (map (\<lambda>i. b ! i / a ! i ! i) [0..<length a]))"

definition identity_matrix :: "nat \<Rightarrow> real list list" where
  "identity_matrix n = map (\<lambda>i. map (\<lambda>j. if i = j then 1 else 0) [0..<n]) [0..<n]"

definition demo_externals :: externals where
  "demo_externals =
     \<lparr>ext_interp1d = linear_interp1d,
      ext_la_solve = diagonal_solve,
      ext_concat_splines = (\<lambda>spl1 spl2 time1 time2 l pts. pts),
      ext_basis_greville = (\<lambda>knots degree. [0, 1/2, 1]),
      ext_basis_eval = (\<lambda>knots degree pts. identity_matrix (length pts)),
      ext_GCodeProblem = (\<lambda>v rs segs n.
         \<lparr>lp_rooms = rs, lp_segments = segs, lp_n_segments = n, lp_init_guess = [],
          var_result = Some demo_solution\<rparr>),
      ext_reset_init_guess = (\<lambda>g lp. lp\<lparr>lp_init_guess := g\<rparr>),
      ext_solve = (\<lambda>lp current_time update_time. lp\<lparr>var_result := Some demo_solution\<rparr>),
      ext_stop_criterium = (\<lambda>lp current_time update_time. 10 \<le> current_time),
      ext_vehicle_state = (\<lambda>lp. case lp_segments lp of [] \<Rightarrow> (0, 0, 0) | s # ss \<Rightarrow> seg_end s)\<rparr>"

text \<open>
  A run of the program of two straight blocks with a look-ahead of 1: the
  scheduler after \<^verbatim>\<open>reinitialize\<close>, after a first \<^verbatim>\<open>solve\<close> that brings the tool
  to the end of the first block, and after a second \<^verbatim>\<open>solve\<close> that brings it to
  the end of the last block.
\<close>

definition start_problem :: local_problem where
  "start_problem =
     \<lparr>lp_rooms = [line_room (0, 0, 0) (2, 0, 0)],
      lp_segments = [line_segment (0, 0, 0) (2, 0, 0)], lp_n_segments = 1,
      lp_init_guess = [[[0, 0, 0], [2, 0, 0], [2, 0, 0], [3/2, 0, 0], [2, 0, 0]]],
      var_result = Some demo_solution\<rparr>"

definition start_scheduler :: scheduler where
  "start_scheduler =
     demo_scheduler\<lparr>segments := [line_segment (0, 0, 0) (2, 0, 0)], cnt := 2,
       motion_times := [4], local_problem := Some start_problem\<rparr>"

definition moved_scheduler :: scheduler where
  "moved_scheduler = start_scheduler\<lparr>motion_times := [1], curr_state := (2, 0, 0)\<rparr>"

definition final_problem :: local_problem where
  "final_problem =
     \<lparr>lp_rooms = [line_room (2, 0, 0) (2, 2, 0)],
      lp_segments = [(line_segment (2, 0, 0) (2, 2, 0))\<lparr>seg_number := 1\<rparr>],
      lp_n_segments = 1,
      lp_init_guess = [[[2, 0, 0], [2, 2, 0], [2, 2, 0], [2, 3/2, 0], [2, 2, 0]]],
      var_result = Some demo_solution\<rparr>"

definition final_scheduler :: scheduler where
  "final_scheduler =
     moved_scheduler\<lparr>n_current_block := 1,
       segments := [(line_segment (2, 0, 0) (2, 2, 0))\<lparr>seg_number := 1\<rparr>],
       init_guess := [[[2, 0, 0], [2, 2, 0], [2, 2, 0], [2, 3/2, 0], [2, 2, 0]]],
       motion_times := [4], local_problem := Some final_problem,
       curr_state := (2, 2, 0)\<rparr>"

text \<open>
  A scheduler with a look-ahead of 2 over the two straight blocks, whose local
  problem holds a solution, and collaborators whose basis vanishes at every
  evaluation point, so that the matrix of the linear system is the zero matrix.
\<close>

definition pair_scheduler :: scheduler where
  "pair_scheduler =
     demo_scheduler\<lparr>n_segments := 2,
       segments := [line_segment (0, 0, 0) (2, 0, 0), line_segment (2, 0, 0) (2, 2, 0)],
       motion_times := [4, 4], cnt := 2,
       local_problem := Some
         \<lparr>lp_rooms = rooms demo_scheduler,
          lp_segments = [line_segment (0, 0, 0) (2, 0, 0), line_segment (2, 0, 0) (2, 2, 0)],
          lp_n_segments = 2, lp_init_guess = [], var_result = Some demo_solution\<rparr>\<rparr>"

definition singular_externals :: externals where
  "singular_externals =
     demo_externals\<lparr>ext_basis_eval := (\<lambda>knots degree pts. map (\<lambda>p. map (\<lambda>q. 0) pts) pts)\<rparr>"

text \<open>
  The corridor a segment was made from: a segment keeps the shape, the pose and
  the start and end of its room. The window is in order when it holds
  \<open>n_segments\<close> segments and segment \<open>i\<close> was made from the room at position
  \<open>n_current_block + i\<close> of the program.
\<close>

definition made_from :: "segment \<Rightarrow> room \<Rightarrow> bool" where
  "made_from seg r \<longleftrightarrow>
     border_shape (seg_border seg) = room_shape r \<and> border_pose (seg_border seg) = room_pose r
     \<and> seg_start seg = room_start r \<and> seg_end seg = room_end r"

definition window_in_order :: "scheduler \<Rightarrow> bool" where
  "window_in_order s \<longleftrightarrow>
     length (segments s) = n_segments s
     \<and> n_current_block s + n_segments s \<le> length (rooms s)
     \<and> list_all (\<lambda>i. made_from (segments s ! i) (rooms s ! (n_current_block s + i)))
          [0..<n_segments s]"

text \<open>
  The length of the sampled centerline as a path: the sum of the Euclidean
  distances of consecutive waypoints. The source does not compute it; it is the
  quantity the motion time is compared with.
\<close>

fun path_length :: "point list \<Rightarrow> real" where
  "path_length (p # q # ps) =
     (case (p, q) of ((px, py, pz), (qx, qy, qz)) \<Rightarrow>
        sqrt ((qx - px)\<^sup>2 + (qy - py)\<^sup>2 + (qz - pz)\<^sup>2)) + path_length (q # ps)"
| "path_length ps = 0"

definition centerline_length :: "segment \<Rightarrow> real" where
  "centerline_length seg =
     (case centerline_points seg of (x, y, z) \<Rightarrow> path_length (zip x (zip y z)))"

text \<open>
  The segment of the counter-clockwise half circle of radius 1 about the
  origin, with tolerance 1/10.
\<close>

definition half_circle_segment :: segment where
  "half_circle_segment =
     create_segment demo_scheduler
       (make_room (Ring (9/10) (11/10) (1, 0, 0) (-1, 0, 0) CCW,
                   \<lparr>pose0 = 0, pose1 = 0, pose2 = 0, pose3 = 0, pose4 = 0, pose5 = 0\<rparr>)
          (demo_arc CCW))"

section \<open>Properties of the corridor builder\<close>

lemma get_environment_from_length:
  "get_environment_from tol prev GCode = Inr rs \<Longrightarrow> length rs = length GCode"
  by (induction GCode arbitrary: prev rs) (auto split: sum.splits)

lemma get_environment_from_nth:
  "get_environment_from tol prev GCode = Inr rs \<Longrightarrow> i < length GCode \<Longrightarrow>
   \<exists>p sp. block_shape_pose tol p (GCode ! i) = Inr sp \<and> rs ! i = make_room sp (GCode ! i)"
proof (induction GCode arbitrary: prev rs i)
  case Nil
  then show ?case by simp
next
  case (Cons b bs)
  from Cons.prems(1) obtain sp rs' where sp: "block_shape_pose tol prev b = Inr sp"
    and rest: "get_environment_from tol (Some sp) bs = Inr rs'"
    and rs: "rs = make_room sp b # rs'"
    by (auto split: sum.splits)
  show ?case
  proof (cases i)
    case 0
    with sp rs show ?thesis by (intro exI[of _ prev] exI[of _ sp]) simp
  next
    case (Suc j)
    with Cons.prems(2) have "j < length bs" by simp
    from Cons.IH[OF rest this] Suc rs show ?thesis by simp
  qed
qed

lemma arc_block_shape_pose:
  assumes "block_type block = G02 \<or> block_type block = G03"
    and "block_shape_pose tol p block = Inr sp"
  shows "fst sp = Ring (block_radius block - tol) (block_radius block + tol)
           (sub_point (block_start block) (block_center block))
           (sub_point (block_end block) (block_center block))
           (if block_type block = G02 then CW else CCW)
       \<and> snd sp = \<lparr>pose0 = fst (block_center block), pose1 = fst (snd (block_center block)),
                    pose2 = snd (snd (block_center block)), pose3 = 0, pose4 = 0, pose5 = 0\<rparr>"
  using assms by (auto simp: block_shape_pose_def Let_def split: prod.splits)

text \<open>
  C8. For an arc block (G02 or G03) at position \<open>i\<close> of the program, whatever its
  direction, the room built for it is a ring with inner radius
  \<open>radius - tolerance\<close> and outer radius \<open>radius + tolerance\<close>, so the outer minus
  the inner radius is twice the tolerance; its pose is the center of the block
  followed by three zeros, and the direction is CW for G02 and CCW for G03.
\<close>

theorem arc_annulus:
  assumes "get_environment GCode tolerance = Inr rs"
    and "i < length GCode"
    and "block_type (GCode ! i) = G02 \<or> block_type (GCode ! i) = G03"
  shows "room_shape (rs ! i) =
           Ring (block_radius (GCode ! i) - tolerance) (block_radius (GCode ! i) + tolerance)
             (sub_point (block_start (GCode ! i)) (block_center (GCode ! i)))
             (sub_point (block_end (GCode ! i)) (block_center (GCode ! i)))
             (if block_type (GCode ! i) = G02 then CW else CCW)
       \<and> radius_out (room_shape (rs ! i)) - radius_in (room_shape (rs ! i)) = 2 * tolerance
       \<and> room_pose (rs ! i) =
           \<lparr>pose0 = fst (block_center (GCode ! i)), pose1 = fst (snd (block_center (GCode ! i))),
            pose2 = snd (snd (block_center (GCode ! i))), pose3 = 0, pose4 = 0, pose5 = 0\<rparr>"
proof -
  obtain p sp where sp: "block_shape_pose tolerance p (GCode ! i) = Inr sp"
    and r: "rs ! i = make_room sp (GCode ! i)"
    using get_environment_from_nth assms(1,2) unfolding get_environment_def by blast
  from arc_block_shape_pose[OF assms(3) sp] r show ?thesis
    by (simp add: make_room_def)
qed

lemma demo_env: "\<exists>rs. get_environment [demo_arc CW, demo_arc CCW] (1/10) = Inr rs"
  by (simp add: get_environment_def block_shape_pose_def demo_arc_def make_room_def sub_point_def)

theorem arc_annulus_witness:
  "\<exists>rs. get_environment [demo_arc CW, demo_arc CCW] (1/10) = Inr rs
     \<and> radius_out (room_shape (rs ! 0)) - radius_in (room_shape (rs ! 0)) = 2 * (1/10)
     \<and> radius_out (room_shape (rs ! 1)) - radius_in (room_shape (rs ! 1)) = 2 * (1/10)
     \<and> direction (room_shape (rs ! 0)) = CW \<and> direction (room_shape (rs ! 1)) = CCW
     \<and> pose0 (room_pose (rs ! 1)) = 0"
proof -
  obtain rs where rs: "get_environment [demo_arc CW, demo_arc CCW] (1/10) = Inr rs"
    using demo_env by blast
  have t0: "block_type ([demo_arc CW, demo_arc CCW] ! 0) = G02 \<or> block_type ([demo_arc CW, demo_arc CCW] ! 0) = G03"
    by (simp add: demo_arc_def)
  have t1: "block_type ([demo_arc CW, demo_arc CCW] ! 1) = G02 \<or> block_type ([demo_arc CW, demo_arc CCW] ! 1) = G03"
    by (simp add: demo_arc_def)
  from arc_annulus[OF rs _ t0] arc_annulus[OF rs _ t1] rs show ?thesis
    by (simp add: demo_arc_def)
qed

section \<open>Properties of the centerline guess generator\<close>

lemma total_length_telescope:
  "ps \<noteq> [] \<Longrightarrow> total_length l ps = l + (last ps - hd ps)"
  by (induction l ps rule: total_length.induct) auto

lemma time_steps_zero: "set (time_steps 0 t ps) \<subseteq> {0}"
  by (induction "0::real" t ps rule: time_steps.induct) (auto simp: Let_def)

lemma all_zero_time_vector_zero: "all_zero (make_exact (time_vector 0 ps))"
  using time_steps_zero[of 0 ps]
  by (auto simp: all_zero_def make_exact_def time_vector_def list_all_iff)

lemma length_linspace: "length (linspace a b n) = n"
  by (simp add: linspace_def)

lemma linspace_nonempty: "0 < n \<Longrightarrow> linspace a b n \<noteq> []"
  by (simp add: linspace_def)

lemma linspace_const: "n \<noteq> 0 \<Longrightarrow> hd (linspace a a n) = a \<and> last (linspace a a n) = a"
  by (simp add: linspace_def hd_map last_map)

lemma centerline_nonempty:
  "centerline_points seg = (x, y, z) \<Longrightarrow> x \<noteq> [] \<and> y \<noteq> [] \<and> z \<noteq> []"
  by (auto simp: centerline_points_def Let_def linspace_def split: shape.splits prod.splits)

lemma centerline_start_eq_end:
  assumes "seg_start seg = seg_end seg" and "centerline_points seg = (x, y, z)"
  shows "last x = hd x \<and> last y = hd y \<and> last z = hd z"
proof (cases "border_shape (seg_border seg)")
  case (Rectangle w h ori)
  with assms show ?thesis
    by (auto simp: centerline_points_def split: prod.splits)
next
  case (Ring r_in r_out rs re dir)
  with assms show ?thesis
    by (auto simp: centerline_points_def Let_def hd_map last_map linspace_nonempty linspace_const
        split: prod.splits)
qed

text \<open>
  C5. A segment whose start equals its end, and more generally a segment whose
  sampled centerline has the same first and last value on every axis (zero net
  displacement), makes the generator raise RuntimeError; no guess is returned.
\<close>

theorem degenerate_segment_raises:
  assumes "seg_start seg = seg_end seg
           \<or> (case centerline_points seg of (x, y, z) \<Rightarrow>
                 last x = hd x \<and> last y = hd y \<and> last z = hd z)"
  shows "get_init_guess_new_segment interp1d self seg = Inl RuntimeError"
proof -
  obtain x y z where c: "centerline_points seg = (x, y, z)"
    by (cases "centerline_points seg") auto
  from assms c centerline_start_eq_end[OF _ c]
  have net: "last x = hd x \<and> last y = hd y \<and> last z = hd z" by auto
  from centerline_nonempty[OF c] net
  have "total_length 0 x = 0" "total_length 0 y = 0" "total_length 0 z = 0"
    by (simp_all add: total_length_telescope)
  with c show ?thesis
    by (simp add: get_init_guess_new_segment_def time_vectors_def all_zero_time_vector_zero)
qed

theorem degenerate_segment_raises_witness:
  "seg_start (line_segment (1, 2, 3) (1, 2, 3)) = seg_end (line_segment (1, 2, 3) (1, 2, 3))
   \<and> get_init_guess_new_segment linear_interp1d demo_scheduler (line_segment (1, 2, 3) (1, 2, 3))
       = Inl RuntimeError"
proof -
  have h: "seg_start (line_segment (1, 2, 3) (1, 2, 3)) = seg_end (line_segment (1, 2, 3) (1, 2, 3))"
    by (simp add: line_segment_def create_segment_def line_room_def make_room_def line_block_def)
  from h degenerate_segment_raises[OF disjI1[OF h]] show ?thesis by simp
qed

lemma last_time_steps:
  "l \<noteq> 0 \<Longrightarrow> ps \<noteq> [] \<Longrightarrow> last (t # time_steps l t ps) = t + (last ps - hd ps) / l"
proof (induction l t ps rule: time_steps.induct)
  case (1 l t a b ps)
  then show ?case by (simp add: Let_def add_divide_distrib diff_divide_distrib)
qed auto

lemma not_all_zero_time_vector:
  assumes "ps \<noteq> []" and "total_length 0 ps \<noteq> 0"
  shows "\<not> all_zero (make_exact (time_vector (total_length 0 ps) ps))"
proof -
  from assms have l: "total_length 0 ps = last ps - hd ps"
    by (simp add: total_length_telescope)
  with assms last_time_steps[of "total_length 0 ps" ps 0]
  have "last (time_vector (total_length 0 ps) ps) = 1"
    by (simp add: time_vector_def)
  moreover have "time_vector (total_length 0 ps) ps \<noteq> []"
    by (simp add: time_vector_def)
  ultimately have "last (make_exact (time_vector (total_length 0 ps) ps)) = 1"
    by (simp add: make_exact_def last_map)
  moreover have "make_exact (time_vector (total_length 0 ps) ps) \<noteq> []"
    by (simp add: make_exact_def time_vector_def)
  ultimately show ?thesis
    unfolding all_zero_def list_all_iff
    by (metis last_in_set zero_neq_one)
qed

lemma set_final_rows_Inr:
  assumes "set_final_rows rows = Inr g"
  shows "4 \<le> length rows \<and> g = rows[length rows - 3 := rows ! (length rows - 1),
                                      length rows - 4 := rows ! (length rows - 1)]"
  using assms by (auto simp: set_final_rows_def Let_def split: if_splits)

lemma length_coefficient_rows: "length (coefficient_rows interp1d g seg) = length g"
  by (simp add: coefficient_rows_def Let_def split: prod.splits)

lemma new_segment_Inr:
  assumes "get_init_guess_new_segment interp1d self seg = Inr (g, t)"
  shows "\<exists>mv. max_vel (vehicle self) = Inr mv
           \<and> set_final_rows (coefficient_rows interp1d (greville (vehicle self)) seg) = Inr g
           \<and> t = length_to_travel seg / (mv * 0.5)"
  using assms
  by (auto simp: get_init_guess_new_segment_def Let_def split: prod.splits if_splits sum.splits)

text \<open>
  What the two assignments leave behind: when the generator returns a guess,
  the basis has at least four Greville abscissae, the guess has one row per
  abscissa, the rows at the positions -3 and -4 hold the final row, and the rows
  at the positions -2 and -1 hold the interpolated coefficients.
\<close>

lemma rows_written_by_generator:
  assumes "get_init_guess_new_segment interp1d self seg = Inr (g, t)"
  shows "4 \<le> length g \<and> length g = length (greville (vehicle self))
       \<and> g ! (length g - 3) = g ! (length g - 1)
       \<and> g ! (length g - 4) = g ! (length g - 1)
       \<and> g ! (length g - 2)
           = coefficient_rows interp1d (greville (vehicle self)) seg ! (length g - 2)
       \<and> g ! (length g - 1)
           = coefficient_rows interp1d (greville (vehicle self)) seg ! (length g - 1)"
proof -
  let ?rows = "coefficient_rows interp1d (greville (vehicle self)) seg"
  from new_segment_Inr[OF assms] have "set_final_rows ?rows = Inr g" by blast
  from set_final_rows_Inr[OF this]
  have n: "4 \<le> length ?rows"
    and g: "g = ?rows[length ?rows - 3 := ?rows ! (length ?rows - 1),
                      length ?rows - 4 := ?rows ! (length ?rows - 1)]"
    by simp_all
  have len: "length g = length ?rows" by (simp add: g)
  from n have "g ! (length ?rows - 3) = ?rows ! (length ?rows - 1)"
    and "g ! (length ?rows - 4) = ?rows ! (length ?rows - 1)"
    and "g ! (length ?rows - 2) = ?rows ! (length ?rows - 2)"
    and "g ! (length ?rows - 1) = ?rows ! (length ?rows - 1)"
    by (simp_all add: g nth_list_update)
  with n len show ?thesis
    by (simp add: length_coefficient_rows)
qed

lemma demo_line_guess:
  "get_init_guess_new_segment linear_interp1d demo_scheduler (line_segment (0, 0, 0) (2, 0, 0))
     = Inr ([[0, 0, 0], [2, 0, 0], [2, 0, 0], [3/2, 0, 0], [2, 0, 0]], 4)"
  by (simp add: get_init_guess_new_segment_def time_vectors_def coefficient_rows_def
      length_to_travel_def centerline_points_def line_segment_def create_segment_def
      line_room_def make_room_def line_block_def demo_scheduler_def demo_vehicle_def time_vector_def make_exact_def
      all_zero_def borrow_times_def max_vel_def set_final_rows_def linear_interp1d_def
      Let_def upt_rec)


text \<open>
  C6. The two assignments that follow the comment "final acceleration is also 0
  normally" write the rows at the positions -3 and -4 and leave the row at the
  position -2 as interpolated, so the coefficients before the final one are not
  all equal to it. For the straight segment from (0, 0, 0) to (2, 0, 0) and the
  Greville abscissae 0, 1/4, 1/2, 3/4, 1 the last three coefficients of the
  first axis are 2, 3/2, 2: the row before the final one differs from it and
  the second difference at the end is 1, not 0. With the four abscissae 0, 1/3,
  2/3, 1 the position -4 is the first row, and the coefficient of the start
  point is overwritten with the one of the end point.
\<close>

theorem final_coefficients_not_forced:
  "get_init_guess_new_segment linear_interp1d demo_scheduler (line_segment (0, 0, 0) (2, 0, 0))
     = Inr ([[0, 0, 0], [2, 0, 0], [2, 0, 0], [3/2, 0, 0], [2, 0, 0]], 4)
   \<and> [[0, 0, 0], [2, 0, 0], [2, 0, 0], [3/2, 0, 0], [2, 0, 0 :: real]] ! (5 - 2)
       \<noteq> [[0, 0, 0], [2, 0, 0], [2, 0, 0], [3/2, 0, 0], [2, 0, 0]] ! (5 - 1)
   \<and> hd ([[0, 0, 0], [2, 0, 0], [2, 0, 0], [3/2, 0, 0], [2, 0, 0 :: real]] ! (5 - 1))
       - 2 * hd ([[0, 0, 0], [2, 0, 0], [2, 0, 0], [3/2, 0, 0], [2, 0, 0]] ! (5 - 2))
       + hd ([[0, 0, 0], [2, 0, 0], [2, 0, 0], [3/2, 0, 0], [2, 0, 0]] ! (5 - 3)) = 1
   \<and> get_init_guess_new_segment linear_interp1d
         (demo_scheduler\<lparr>vehicle := demo_vehicle\<lparr>greville := [0, 1/3, 2/3, 1]\<rparr>\<rparr>)
         (line_segment (0, 0, 0) (2, 0, 0))
     = Inr ([[2, 0, 0], [2, 0, 0], [4/3, 0, 0], [2, 0, 0]], 4)"
  by (simp add: get_init_guess_new_segment_def time_vectors_def coefficient_rows_def
      length_to_travel_def centerline_points_def line_segment_def create_segment_def
      line_room_def make_room_def line_block_def demo_scheduler_def demo_vehicle_def
      time_vector_def make_exact_def all_zero_def borrow_times_def max_vel_def
      set_final_rows_def linear_interp1d_def Let_def upt_rec)

section \<open>Properties of the scheduler loop\<close>

lemma py_get_last: "xs \<noteq> [] \<Longrightarrow> py_get xs (- 1) = Inr (last xs)"
  by (cases xs rule: rev_cases) (auto simp: py_get_def nth_append nat_add_distrib)

lemma py_get_empty: "py_get [] i = Inl IndexError"
  by (simp add: py_get_def)

text \<open>
  C10. With a non-empty window the stop criterion answers True when the end of
  the last segment is the goal state and the local problem's criterion holds,
  False when the end of the last segment is not the goal state, and None, not
  False, when the end of the last segment is the goal state and the local
  problem's criterion does not hold.
\<close>

theorem stop_criterium_three_answers:
  assumes "segments self \<noteq> []"
  shows "(seg_end (last (segments self)) = goal_state self \<and> local_problem self = Some lp
            \<and> ext_stop_criterium ext lp current_time update_time
          \<longrightarrow> stop_criterium ext self current_time update_time = Inr (Some True))
       \<and> (seg_end (last (segments self)) \<noteq> goal_state self
          \<longrightarrow> stop_criterium ext self current_time update_time = Inr (Some False))
       \<and> (seg_end (last (segments self)) = goal_state self \<and> local_problem self = Some lp
            \<and> \<not> ext_stop_criterium ext lp current_time update_time
          \<longrightarrow> stop_criterium ext self current_time update_time = Inr None)"
  using assms by (simp add: stop_criterium_def bind_err_def py_get_last)

lemma final_scheduler_facts:
  "segments final_scheduler \<noteq> []"
  "seg_end (last (segments final_scheduler)) = goal_state final_scheduler"
  "local_problem final_scheduler = Some final_problem"
  "seg_end (last (segments (final_scheduler\<lparr>goal_state := (9, 9, 9)\<rparr>)))
     \<noteq> goal_state (final_scheduler\<lparr>goal_state := (9, 9, 9)\<rparr>)"
  by (simp_all add: final_scheduler_def moved_scheduler_def start_scheduler_def
      demo_scheduler_def line_segment_def create_segment_def line_room_def make_room_def line_block_def)

theorem stop_criterium_three_answers_witness:
  "stop_criterium demo_externals final_scheduler 3 1 = Inr None
   \<and> stop_criterium demo_externals final_scheduler 10 1 = Inr (Some True)
   \<and> stop_criterium demo_externals (final_scheduler\<lparr>goal_state := (9, 9, 9)\<rparr>) 3 1
       = Inr (Some False)"
proof -
  let ?lp = final_problem
  have no: "\<not> ext_stop_criterium demo_externals ?lp 3 1"
    and yes: "ext_stop_criterium demo_externals ?lp 10 1"
    by (simp_all add: demo_externals_def)
  have ne: "segments (final_scheduler\<lparr>goal_state := (9, 9, 9)\<rparr>) \<noteq> []"
    using final_scheduler_facts(1) by simp
  from stop_criterium_three_answers[OF final_scheduler_facts(1), of ?lp demo_externals 3 1]
    stop_criterium_three_answers[OF final_scheduler_facts(1), of ?lp demo_externals 10 1]
    stop_criterium_three_answers[OF ne, of ?lp demo_externals 3 1]
    final_scheduler_facts no yes
  show ?thesis by blast
qed

lemmas demo_defs = demo_externals_def demo_scheduler_def demo_vehicle_def line_segment_def
  line_room_def make_room_def line_block_def demo_solution_def demo_spline_def linear_interp1d_def start_scheduler_def
  start_problem_def moved_scheduler_def final_scheduler_def final_problem_def

lemmas guess_defs = get_init_guess_new_segment_def time_vectors_def coefficient_rows_def
  length_to_travel_def centerline_points_def create_segment_def time_vector_def
  make_exact_def all_zero_def borrow_times_def max_vel_def set_final_rows_def Let_def upt_rec

lemmas sched_defs = reinitialize_def get_init_guess_def solved_def bind_err_def py_get_def
  generate_problem_def solve_def check_segments_def update_segments_def get_T_def
  get_solution_def

lemma demo_reinitialize: "reinitialize demo_externals demo_scheduler = Inr start_scheduler"
  by (simp add: sched_defs demo_defs guess_defs)



lemma demo_solve_final: "solve demo_externals final_scheduler 2 1 = Inl IndexError"
  by (simp add: sched_defs demo_defs guess_defs)

lemma bind_err_Inr:
  "bind_err m f = Inr y \<Longrightarrow> \<exists>x. m = Inr x \<and> f x = Inr y"
  by (cases m) (auto simp: bind_err_def)



lemma update_segments_Inr:
  assumes "update_segments ext self = Inr s"
  shows "\<exists>block. py_get (rooms self) (int (n_current_block self) + (int (n_segments self) - 1))
                    = Inr block
           \<and> segments s = drop 1 (segments self) @ [create_segment self block]
           \<and> n_current_block s = n_current_block self \<and> rooms s = rooms self
           \<and> n_segments s = n_segments self"
  using assms
  by (auto simp: update_segments_def Let_def create_segment_def dest!: bind_err_Inr
      split: prod.splits)




section \<open>Properties of the solution stitcher\<close>

lemma map_err_first_error:
  "l < length xs \<Longrightarrow> f (xs ! l) = Inl e \<Longrightarrow> \<forall>j < l. \<exists>y. f (xs ! j) = Inr y \<Longrightarrow>
   map_err f xs = Inl e"
proof (induction xs arbitrary: l)
  case Nil
  then show ?case by simp
next
  case (Cons x xs)
  show ?case
  proof (cases l)
    case 0
    with Cons.prems show ?thesis by simp
  next
    case (Suc m)
    with Cons.prems have "m < length xs" "f (xs ! m) = Inl e"
      and "\<forall>j < m. \<exists>y. f (xs ! j) = Inr y"
      by auto
    from Cons.IH[OF this] have rest: "map_err f xs = Inl e" .
    from Cons.prems(3) Suc obtain y where "f x = Inr y" by force
    with rest show ?thesis by simp
  qed
qed

lemma combined_axis_singular:
  assumes "shift_greville (ext_basis_greville ext
             (map (\<lambda>k. k * (time1 + time2)) (spl_knots (spl1 ! l))) (spl_degree (spl1 ! l)))
           = Inr grev_bc"
    and "ext_la_solve ext
           (ext_basis_eval ext (map (\<lambda>k. k * (time1 + time2)) (spl_knots (spl1 ! l)))
              (spl_degree (spl1 ! l)) grev_bc)
           (ext_concat_splines ext spl1 spl2 time1 time2 l grev_bc) = Inl LinAlgError"
  shows "combined_axis ext spl1 spl2 time1 time2 l = Inl LinAlgError"
  using assms by (simp add: combined_axis_def Let_def bind_err_def)

text \<open>
  C4 (as the code has it). Let the local problem hold a solution for a window
  of more than one segment, and let \<open>l\<close> be the first axis whose linear system
  the solver rejects as singular (the axes before it are solved). Then
  \<^verbatim>\<open>get_init_guess_combined_segment\<close> raises LinAlgError and so does
  \<^verbatim>\<open>get_init_guess\<close>: no coefficients are returned, and no centerline guess takes
  the place of the stitched one.
\<close>

theorem singular_system_propagates:
  assumes "solved self" and "1 < n_segments self"
    and "get_splines self 0 = Inr spl1" and "get_splines self 1 = Inr spl2"
    and "get_T self 0 = Inr time1" and "get_T self 1 = Inr time2"
    and "l < length spl1"
    and "\<forall>j < l. \<exists>c. combined_axis ext spl1 spl2 time1 time2 j = Inr c"
    and "shift_greville (ext_basis_greville ext
             (map (\<lambda>k. k * (time1 + time2)) (spl_knots (spl1 ! l))) (spl_degree (spl1 ! l)))
           = Inr grev_bc"
    and "ext_la_solve ext
           (ext_basis_eval ext (map (\<lambda>k. k * (time1 + time2)) (spl_knots (spl1 ! l)))
              (spl_degree (spl1 ! l)) grev_bc)
           (ext_concat_splines ext spl1 spl2 time1 time2 l grev_bc) = Inl LinAlgError"
  shows "get_init_guess_combined_segment ext self = Inl LinAlgError
       \<and> get_init_guess ext self = Inl LinAlgError"
proof -
  have "combined_axis ext spl1 spl2 time1 time2 ([0..<length spl1] ! l) = Inl LinAlgError"
    using combined_axis_singular[OF assms(9,10)] assms(7) by simp
  moreover have "\<forall>j < l. \<exists>c.
      combined_axis ext spl1 spl2 time1 time2 ([0..<length spl1] ! j) = Inr c"
    using assms(7,8) by simp
  ultimately have "map_err (combined_axis ext spl1 spl2 time1 time2) [0..<length spl1]
                     = Inl LinAlgError"
    using map_err_first_error[of l "[0..<length spl1]"] assms(7) by simp
  then have c: "get_init_guess_combined_segment ext self = Inl LinAlgError"
    using assms(3-6) by (simp add: get_init_guess_combined_segment_def bind_err_def)
  with assms(1,2) show ?thesis
    by (simp add: get_init_guess_def bind_err_def)
qed

lemma upt_0_3: "[0..<3] = [0, 1, 2]"
  by (simp add: upt_rec)

lemmas stitch_defs = get_init_guess_combined_segment_def combined_axis_def shift_greville_def
  get_splines_def get_T_def get_solution_def bind_err_def pair_scheduler_def
  singular_externals_def demo_externals_def demo_solution_def demo_spline_def
  diagonal_solve_def identity_matrix_def demo_scheduler_def upt_0_3

text \<open>
  The specification asks for a centerline guess in place of the stitched one.
  That fails: with the zero matrix the solver raises, and
  \<^verbatim>\<open>get_init_guess\<close> returns no guess at all.
\<close>

theorem singular_system_counterexample:
  "ext_basis_eval singular_externals [0, 0, 3, 3] 1 [1/200, 1/2, 199/200]
     = [[0, 0, 0], [0, 0, 0], [0, 0, 0]]
   \<and> get_init_guess_combined_segment singular_externals pair_scheduler = Inl LinAlgError
   \<and> get_init_guess singular_externals pair_scheduler = Inl LinAlgError"
  by (simp add: get_init_guess_def solved_def stitch_defs)

lemma pair_stitched:
  "get_init_guess_combined_segment demo_externals pair_scheduler
     = Inr ([[1/200, 1/200, 1/200], [1/2, 1/2, 1/2], [199/200, 199/200, 199/200]], 3)"
  by (simp add: stitch_defs)

theorem singular_system_propagates_witness:
  "solved pair_scheduler \<and> 1 < n_segments pair_scheduler
   \<and> ext_la_solve singular_externals [[0, 0, 0], [0, 0, 0], [0, 0, 0]] [1/200, 1/2, 199/200]
       = Inl LinAlgError
   \<and> get_init_guess_combined_segment singular_externals pair_scheduler = Inl LinAlgError
   \<and> get_init_guess singular_externals pair_scheduler = Inl LinAlgError"
proof -
  have s: "solved pair_scheduler" and n: "1 < n_segments pair_scheduler"
    by (simp_all add: solved_def pair_scheduler_def demo_scheduler_def)
  have sp: "get_splines pair_scheduler 0 = Inr [demo_spline, demo_spline, demo_spline]"
    "get_splines pair_scheduler 1 = Inr [demo_spline, demo_spline, demo_spline]"
    and t: "get_T pair_scheduler 0 = Inr 1" "get_T pair_scheduler 1 = Inr 2"
    by (simp_all add: get_splines_def get_T_def get_solution_def bind_err_def pair_scheduler_def
        demo_scheduler_def demo_solution_def)
  have l: "0 < length [demo_spline, demo_spline, demo_spline]" by simp
  have e: "\<forall>j < (0::nat). \<exists>c. combined_axis singular_externals
             [demo_spline, demo_spline, demo_spline] [demo_spline, demo_spline, demo_spline]
             1 2 j = Inr c"
    by simp
  have g: "shift_greville (ext_basis_greville singular_externals
             (map (\<lambda>k. k * (1 + 2)) (spl_knots ([demo_spline, demo_spline, demo_spline] ! 0)))
             (spl_degree ([demo_spline, demo_spline, demo_spline] ! 0)))
           = Inr [1/200, 1/2, 199/200]"
    by (simp add: shift_greville_def singular_externals_def demo_externals_def)
  have m: "ext_la_solve singular_externals [[0, 0, 0], [0, 0, 0], [0, 0, 0]] [1/200, 1/2, 199/200]
             = Inl LinAlgError"
    by (simp add: singular_externals_def demo_externals_def diagonal_solve_def upt_0_3)
  have sing: "ext_la_solve singular_externals
           (ext_basis_eval singular_externals
              (map (\<lambda>k. k * (1 + 2)) (spl_knots ([demo_spline, demo_spline, demo_spline] ! 0)))
              (spl_degree ([demo_spline, demo_spline, demo_spline] ! 0)) [1/200, 1/2, 199/200])
           (ext_concat_splines singular_externals [demo_spline, demo_spline, demo_spline]
              [demo_spline, demo_spline, demo_spline] 1 2 0 [1/200, 1/2, 199/200])
           = Inl LinAlgError"
    by (simp add: singular_externals_def demo_externals_def diagonal_solve_def upt_0_3)
  from singular_system_propagates[OF s n sp t l e g sing] s n m show ?thesis by simp
qed

section \<open>Properties of the segment window\<close>

lemma map_err_Inr: "map_err f xs = Inr ys \<Longrightarrow> x \<in> set xs \<Longrightarrow> \<exists>y. f x = Inr y"
  by (induction xs arbitrary: ys) (auto split: sum.splits)

lemma py_get_Inr_nonneg: "py_get xs i = Inr y \<Longrightarrow> 0 \<le> i \<Longrightarrow> nat i < length xs \<and> y = xs ! nat i"
  by (auto simp: py_get_def split: if_splits)

lemma get_init_guess_window_length:
  assumes "get_init_guess ext self = Inr r" and "1 \<le> n_segments self"
  shows "n_segments self \<le> length (segments self)"
proof -
  from assms(1) obtain guesses guess_idx new where
    idx: "guess_idx = [int (n_segments self) - 1] \<or> guess_idx = map int [0..<n_segments self]"
    and new: "map_err (\<lambda>k. bind_err (py_get (segments self) k)
                              (get_init_guess_new_segment (ext_interp1d ext) self))
               guess_idx = Inr new"
    unfolding get_init_guess_def
    by (auto dest!: bind_err_Inr split: if_splits prod.splits)
  from assms(2) have "int (n_segments self - 1) = int (n_segments self) - 1"
    and "n_segments self - 1 \<in> set [0..<n_segments self]"
    by simp_all
  with idx have "int (n_segments self) - 1 \<in> set guess_idx"
    by (metis image_eqI list.set_intros(1) set_map)
  from map_err_Inr[OF new this] obtain seg
    where "py_get (segments self) (int (n_segments self) - 1) = Inr seg"
    by (auto dest!: bind_err_Inr)
  from py_get_Inr_nonneg[OF this] assms(2) show ?thesis by auto
qed

lemma made_from_create_segment: "made_from (create_segment self r) r"
  by (simp add: made_from_def create_segment_def Let_def)

lemma reinitialize_window:
  assumes "reinitialize ext self = Inr s'" and "1 \<le> n_segments self"
  shows "window_in_order s'"
proof -
  let ?w = "map (create_segment self) (take (n_segments self) (drop (n_current_block self) (rooms self)))"
  let ?s2 = "self\<lparr>segments := ?w, cnt := length (rooms self)\<rparr>"
  from assms(1) obtain g ts where gi: "get_init_guess ext ?s2 = Inr (g, ts)"
    and s': "s' = ?s2\<lparr>motion_times := ts,
                local_problem := Some (ext_reset_init_guess ext g
                   (generate_problem ext (?s2\<lparr>motion_times := ts\<rparr>)))\<rparr>"
    unfolding reinitialize_def Let_def
    by (auto dest!: bind_err_Inr)
  from get_init_guess_window_length[OF gi] assms(2)
  have len: "n_segments self \<le> length ?w" by simp
  with assms(2) have n: "n_current_block self + n_segments self \<le> length (rooms self)"
    and lw: "length ?w = n_segments self"
    by auto
  have "\<forall>i < n_segments self.
          made_from (?w ! i) (rooms self ! (n_current_block self + i))"
    using n by (auto simp: made_from_create_segment)
  with n lw show ?thesis
    by (simp add: window_in_order_def s' list_all_iff)
qed

lemma solve_window:
  assumes "solve ext self current_time update_time = Inr s'" and "window_in_order self"
    and "1 \<le> n_segments self"
  shows "window_in_order s'"
proof -
  from assms(1) obtain valid s where chk: "check_segments self = Inr valid"
    and branch: "(if \<not> valid then
          bind_err
            (update_segments ext (self\<lparr>n_current_block := n_current_block self + 1\<rparr>))
            (\<lambda>s. Inr (s\<lparr>local_problem :=
                          Some (ext_reset_init_guess ext (init_guess s)
                                  (generate_problem ext s))\<rparr>))
        else
          bind_err (refresh_motion_times self [0..<n_segments self] (motion_times self))
            (\<lambda>ts. Inr (self\<lparr>motion_times := ts\<rparr>))) = Inr s"
    and fin: "(case local_problem s of
               None \<Rightarrow> Inl AttributeError
             | Some lp \<Rightarrow>
                 (let lp' = ext_solve ext lp current_time update_time in
                  Inr (s\<lparr>local_problem := Some lp',
                         curr_state := ext_vehicle_state ext lp'\<rparr>))) = Inr s'"
    unfolding solve_def by (blast dest!: bind_err_Inr)
  from fin have keep: "window_in_order s' = window_in_order s"
    by (auto simp: Let_def window_in_order_def split: option.splits)
  show ?thesis
  proof (cases valid)
    case True
    with branch obtain ts where "s = self\<lparr>motion_times := ts\<rparr>"
      by (auto dest!: bind_err_Inr)
    with assms(2) keep show ?thesis by (simp add: window_in_order_def)
  next
    case False
    let ?self1 = "self\<lparr>n_current_block := n_current_block self + 1\<rparr>"
    from False branch obtain u where u: "update_segments ext ?self1 = Inr u"
      and s: "s = u\<lparr>local_problem :=
                          Some (ext_reset_init_guess ext (init_guess u)
                                  (generate_problem ext u))\<rparr>"
      by (auto dest!: bind_err_Inr)
    from update_segments_Inr[OF u] obtain block where
      blk: "py_get (rooms self) (int (n_current_block self + 1) + (int (n_segments self) - 1))
              = Inr block"
      and segs: "segments u = drop 1 (segments self) @ [create_segment ?self1 block]"
      and same: "n_current_block u = n_current_block self + 1" "rooms u = rooms self"
        "n_segments u = n_segments self"
      by auto
    let ?n = "n_segments self" and ?c = "n_current_block self"
    from assms(3) have idx: "int (?c + 1) + (int ?n - 1) = int (?c + ?n)" by simp
    from blk idx have "py_get (rooms self) (int (?c + ?n)) = Inr block" by simp
    from py_get_Inr_nonneg[OF this]
    have lt: "?c + ?n < length (rooms self)" and block: "block = rooms self ! (?c + ?n)"
      by (simp_all only: nat_int of_nat_0_le_iff simp_thms)
    from assms(2) have len: "length (segments self) = ?n"
      and made: "\<forall>i < ?n. made_from (segments self ! i) (rooms self ! (?c + i))"
      by (simp_all add: window_in_order_def list_all_iff)
    from len assms(3) have lu: "length (segments u) = ?n" by (simp add: segs)
    have "made_from (segments u ! i) (rooms self ! (?c + 1 + i))" if i: "i < ?n" for i
    proof (cases "i < ?n - 1")
      case True
      with len have "segments u ! i = segments self ! (Suc i)"
        by (simp add: segs nth_append)
      moreover from True have "Suc i < ?n" by simp
      with made have "made_from (segments self ! Suc i) (rooms self ! (?c + Suc i))" by blast
      ultimately show ?thesis by simp
    next
      case False
      with i len assms(3) have "segments u ! i = create_segment ?self1 block"
        and "?c + 1 + i = ?c + ?n"
        by (simp_all add: segs nth_append)
      with block show ?thesis by (simp only: made_from_create_segment)
    qed
    with lu lt same have "window_in_order u"
      by (simp add: window_in_order_def list_all_iff)
    with keep s show ?thesis by (simp add: window_in_order_def)
  qed
qed


text \<open>
  C2, at a look-ahead of 2. \<^verbatim>\<open>create_segment\<close> stores the counter of the next
  block as the number of every segment it makes, so \<^verbatim>\<open>reinitialize\<close> over the two
  straight blocks numbers both segments 0, although the second one is made from
  the room at position 1 of the program. The window itself is the contiguous
  slice of the rooms (lemmas \<open>reinitialize_window\<close> and \<open>solve_window\<close>).
\<close>

theorem segment_number_at_lookahead_two:
  "map_sum id (map seg_number \<circ> segments)
     (reinitialize demo_externals (demo_scheduler\<lparr>n_segments := 2\<rparr>)) = Inr [0, 0]
   \<and> map_sum id (map seg_end \<circ> segments)
       (reinitialize demo_externals (demo_scheduler\<lparr>n_segments := 2\<rparr>))
     = Inr (map room_end (rooms demo_scheduler))
   \<and> room_end (rooms demo_scheduler ! 0) \<noteq> room_end (rooms demo_scheduler ! 1)"
  by (simp add: sched_defs demo_defs guess_defs)

text \<open>
  C3, at the tail of the program. With a look-ahead of 3 over the two straight
  blocks \<^verbatim>\<open>reinitialize\<close> selects the two remaining rooms and then raises
  IndexError while guessing for a third segment; and with the last block in the
  window and the tool at its end, \<^verbatim>\<open>solve\<close> raises IndexError on the room after
  the last one. In neither case is a shorter window returned.
\<close>

theorem window_at_program_tail:
  "reinitialize demo_externals (demo_scheduler\<lparr>n_segments := 3\<rparr>) = Inl IndexError
   \<and> length (rooms final_scheduler) - n_current_block final_scheduler = 1
   \<and> curr_state final_scheduler = seg_end (hd (segments final_scheduler))
   \<and> solve demo_externals final_scheduler 2 1 = Inl IndexError"
  by (simp add: sched_defs demo_defs guess_defs)

section \<open>The motion time of the centerline guess\<close>

lemma half_circle_from_builder:
  "get_environment [demo_arc CCW] (1/10)
     = Inr [make_room (Ring (9/10) (11/10) (1, 0, 0) (-1, 0, 0) CCW,
                   \<lparr>pose0 = 0, pose1 = 0, pose2 = 0, pose3 = 0, pose4 = 0, pose5 = 0\<rparr>)
          (demo_arc CCW)]"
  by (simp add: get_environment_def block_shape_pose_def demo_arc_def sub_point_def)

lemma length_to_travel_chord:
  assumes "centerline_points seg = (x, y, z)"
  shows "length_to_travel seg
           = sqrt ((last x - hd x)\<^sup>2 + (last y - hd y)\<^sup>2 + (last z - hd z)\<^sup>2)"
  using assms centerline_nonempty[OF assms]
  by (simp add: length_to_travel_def total_length_telescope)

lemma new_segment_returns:
  assumes "centerline_points seg = (x, y, z)"
    and "last x \<noteq> hd x \<or> last y \<noteq> hd y \<or> last z \<noteq> hd z"
    and "max_vel (vehicle self) = Inr mv"
    and "4 \<le> length (greville (vehicle self))"
  shows "\<exists>g. get_init_guess_new_segment interp1d self seg
               = Inr (g, length_to_travel seg / (mv * 0.5))"
proof -
  from centerline_nonempty[OF assms(1)] have ne: "x \<noteq> []" "y \<noteq> []" "z \<noteq> []" by simp_all
  with assms(2)
  have "total_length 0 x \<noteq> 0 \<or> total_length 0 y \<noteq> 0 \<or> total_length 0 z \<noteq> 0"
    by (simp add: total_length_telescope)
  with ne not_all_zero_time_vector
  have nz: "\<not> (all_zero (make_exact (time_vector (total_length 0 x) x))
              \<and> all_zero (make_exact (time_vector (total_length 0 y) y))
              \<and> all_zero (make_exact (time_vector (total_length 0 z) z)))"
    by blast
  from assms(4) obtain g
    where "set_final_rows (coefficient_rows interp1d (greville (vehicle self)) seg) = Inr g"
    by (auto simp: set_final_rows_def Let_def length_coefficient_rows)
  with nz assms(1,3) show ?thesis
    by (simp add: get_init_guess_new_segment_def time_vectors_def Let_def)
qed


lemma half_circle_centerline:
  "centerline_points half_circle_segment
     = (map cos (linspace 0 pi 50), map sin (linspace 0 pi 50),
        map (\<lambda>a. 0) (linspace 0 pi 50))"
  by (simp add: centerline_points_def half_circle_segment_def create_segment_def make_room_def
      demo_arc_def arctan2_def Let_def)

lemma linspace_0_pi: "hd (linspace 0 pi 50) = 0" "last (linspace 0 pi 50) = pi"
  by (simp_all add: linspace_def hd_map last_map)

lemma half_circle_motion_time:
  "\<exists>g. get_init_guess_new_segment interp1d demo_scheduler half_circle_segment = Inr (g, 4)"
proof -
  have ne: "linspace 0 pi 50 \<noteq> []" by (simp add: linspace_nonempty)
  have mv: "max_vel (vehicle demo_scheduler) = Inr 1"
    and gr: "4 \<le> length (greville (vehicle demo_scheduler))"
    by (simp_all add: max_vel_def demo_scheduler_def demo_vehicle_def)
  have "last (map cos (linspace 0 pi 50)) \<noteq> hd (map cos (linspace 0 pi 50))"
    using ne by (simp add: hd_map last_map linspace_0_pi)
  then have d: "last (map cos (linspace 0 pi 50)) \<noteq> hd (map cos (linspace 0 pi 50))
      \<or> last (map sin (linspace 0 pi 50)) \<noteq> hd (map sin (linspace 0 pi 50))
      \<or> last (map (\<lambda>a. 0::real) (linspace 0 pi 50)) \<noteq> hd (map (\<lambda>a. 0) (linspace 0 pi 50))"
    by blast
  have "length_to_travel half_circle_segment = 2"
    using ne by (simp add: length_to_travel_chord[OF half_circle_centerline] hd_map last_map
        linspace_0_pi)
  with new_segment_returns[OF half_circle_centerline d mv gr, of interp1d] show ?thesis
    by simp
qed

lemma path_length_ge_x:
  "ps \<noteq> [] \<Longrightarrow> \<bar>fst (last ps) - fst (hd ps)\<bar> \<le> path_length ps"
proof (induction ps rule: path_length.induct)
  case (1 p q ps)
  obtain px py pz qx qy qz where p: "p = (px, py, pz)" and q: "q = (qx, qy, qz)"
    by (metis prod_cases3)
  have "(qx - px)\<^sup>2 \<le> (qx - px)\<^sup>2 + (qy - py)\<^sup>2 + (qz - pz)\<^sup>2" by simp
  then have "sqrt ((qx - px)\<^sup>2) \<le> sqrt ((qx - px)\<^sup>2 + (qy - py)\<^sup>2 + (qz - pz)\<^sup>2)"
    by (rule real_sqrt_le_mono)
  then have step: "\<bar>qx - px\<bar> \<le> sqrt ((qx - px)\<^sup>2 + (qy - py)\<^sup>2 + (qz - pz)\<^sup>2)"
    by simp
  from 1 have "\<bar>fst (last (q # ps)) - qx\<bar> \<le> path_length (q # ps)"
    by (simp add: q)
  with step show ?case by (simp add: p q)
qed simp_all

lemma path_length_first_step:
  assumes "py \<noteq> qy"
  shows "\<bar>qx - px\<bar> + \<bar>fst (last ((qx, qy, qz) # ps)) - qx\<bar>
           < path_length ((px, py, pz) # (qx, qy, qz) # ps)"
proof -
  from assms have "0 < (qy - py)\<^sup>2" by simp
  moreover have "0 \<le> (qz - pz)\<^sup>2" by simp
  ultimately have "(qx - px)\<^sup>2 < (qx - px)\<^sup>2 + (qy - py)\<^sup>2 + (qz - pz)\<^sup>2"
    by linarith
  then have "sqrt ((qx - px)\<^sup>2) < sqrt ((qx - px)\<^sup>2 + (qy - py)\<^sup>2 + (qz - pz)\<^sup>2)"
    by (rule real_sqrt_less_mono)
  then have "\<bar>qx - px\<bar> < sqrt ((qx - px)\<^sup>2 + (qy - py)\<^sup>2 + (qz - pz)\<^sup>2)"
    by simp
  moreover have "\<bar>fst (last ((qx, qy, qz) # ps)) - qx\<bar> \<le> path_length ((qx, qy, qz) # ps)"
    using path_length_ge_x[of "(qx, qy, qz) # ps"] by simp
  ultimately show ?thesis by simp
qed

lemma zip3_map:
  "zip (map f s) (zip (map g s) (map h s)) = map (\<lambda>a. (f a, g a, h a)) s"
  by (induction s) simp_all

lemma linspace_0_pi_unfold:
  "linspace 0 pi 50
     = 0 # pi / 49 # map (\<lambda>i. real i * (pi / 49)) [2..<50]"
proof -
  have "[0..<50] = 0 # 1 # [2..<50]"
    by (simp add: upt_conv_Cons)
  then show ?thesis by (simp add: linspace_def)
qed

lemma half_circle_length: "2 < centerline_length half_circle_segment"
proof -
  let ?P = "\<lambda>a::real. (cos a, sin a, 0::real)"
  let ?rest = "map ?P (map (\<lambda>i. real i * (pi / 49)) [2..<50])"
  have pts: "centerline_length half_circle_segment
               = path_length ((1, 0, 0) # (cos (pi / 49), sin (pi / 49), 0) # ?rest)"
    by (simp add: centerline_length_def half_circle_centerline zip3_map linspace_0_pi_unfold)
  have "last ((cos (pi / 49), sin (pi / 49), 0::real) # ?rest) = ?P (last (linspace 0 pi 50))"
    by (simp add: linspace_0_pi_unfold last_map)
  then have lst: "fst (last ((cos (pi / 49), sin (pi / 49), 0::real) # ?rest)) = - 1"
    by (simp add: linspace_0_pi)
  have "0 < sin (pi / 49)"
    by (rule sin_gt_zero) simp_all
  then have "(0::real) \<noteq> sin (pi / 49)" by simp
  from path_length_first_step[OF this, of "cos (pi / 49)" 1 0 ?rest 0] lst
  have "\<bar>cos (pi / 49) - 1\<bar> + \<bar>- 1 - cos (pi / 49)\<bar>
          < path_length ((1, 0, 0) # (cos (pi / 49), sin (pi / 49), 0) # ?rest)"
    by simp
  with pts show ?thesis by linarith
qed

text \<open>
  What the generator computes: when it returns, the motion time is the
  straight-line distance between the first and the last point of the sampled
  centerline divided by half of the speed limit of the tool (\<^verbatim>\<open>vmax\<close>, or half
  the sum of the three axis limits), for a speed limit other than zero (numpy
  divides by zero to infinity, the reals of the model do not). For a straight
  segment that distance is the length of its centerline.
\<close>

lemma motion_time_of_returned_guess:
  assumes "get_init_guess_new_segment interp1d self seg = Inr (g, t)"
    and "centerline_points seg = (x, y, z)"
  shows "\<exists>mv. max_vel (vehicle self) = Inr mv
           \<and> (mv \<noteq> 0 \<longrightarrow>
                t = sqrt ((last x - hd x)\<^sup>2 + (last y - hd y)\<^sup>2 + (last z - hd z)\<^sup>2)
                      / (mv * 0.5)
                \<and> ((\<exists>w h ori. border_shape (seg_border seg) = Rectangle w h ori)
                     \<longrightarrow> t = centerline_length seg / (mv * 0.5)))"
proof -
  from new_segment_Inr[OF assms(1)] obtain mv
    where mv: "max_vel (vehicle self) = Inr mv" and t: "t = length_to_travel seg / (mv * 0.5)"
    by blast
  have chord: "length_to_travel seg
      = sqrt ((last x - hd x)\<^sup>2 + (last y - hd y)\<^sup>2 + (last z - hd z)\<^sup>2)"
    by (rule length_to_travel_chord[OF assms(2)])
  have "length_to_travel seg = centerline_length seg"
    if "border_shape (seg_border seg) = Rectangle w h ori" for w h ori
    using that assms(2) chord
    by (auto simp: centerline_length_def centerline_points_def split: prod.splits)
  with mv t chord show ?thesis by auto
qed

text \<open>
  C7. The source names the quantity \<^verbatim>\<open>length_to_travel\<close> and its comments call the
  accumulated steps the total length, but the steps are added with their signs
  and telescope to the net displacement. For the half circle of radius 1 about
  the origin and a top speed of 1 the motion time is 4, the chord 2 over half
  the speed, while the sampled centerline is longer than 2, so that its length
  over half the speed is more than 4. For the straight segment from (0, 0, 0)
  to (2, 0, 0) the same code gives the length of the centerline over half the
  speed.
\<close>

theorem motion_time_half_circle:
  "map_sum id snd (get_init_guess_new_segment linear_interp1d demo_scheduler half_circle_segment)
     = Inr 4
   \<and> max_vel (vehicle demo_scheduler) = Inr 1
   \<and> 4 < centerline_length half_circle_segment / (1 * 0.5)
   \<and> map_sum id snd
        (get_init_guess_new_segment linear_interp1d demo_scheduler
           (line_segment (0, 0, 0) (2, 0, 0))) = Inr 4
   \<and> centerline_length (line_segment (0, 0, 0) (2, 0, 0)) / (1 * 0.5) = 4"
proof -
  from half_circle_motion_time[of linear_interp1d] obtain g
    where "get_init_guess_new_segment linear_interp1d demo_scheduler half_circle_segment
             = Inr (g, 4)"
    by blast
  moreover have "centerline_length (line_segment (0, 0, 0) (2, 0, 0)) = 2"
    by (simp add: centerline_length_def centerline_points_def line_segment_def
        create_segment_def line_room_def make_room_def line_block_def)
  ultimately show ?thesis
    using half_circle_length demo_line_guess
    by (simp add: max_vel_def demo_scheduler_def demo_vehicle_def)
qed

section \<open>The concrete program is an output of the corridor builder\<close>

lemma demo_rooms_from_builder:
  "get_environment [line_block (0, 0, 0) (2, 0, 0), line_block (2, 0, 0) (2, 2, 0)] (1/10)
     = Inr (rooms demo_scheduler)"
  by (simp add: get_environment_def block_shape_pose_def line_block_def line_room_def
      demo_scheduler_def Let_def)

lemma demo_first_room:
  "room_shape (line_room (0, 0, 0) (2, 0, 0)) = Rectangle 2 (1/10) 0
   \<and> room_pose (line_room (0, 0, 0) (2, 0, 0))
       = \<lparr>pose0 = 1, pose1 = 0, pose2 = 0, pose3 = 0, pose4 = 0, pose5 = 0\<rparr>"
  by (simp add: line_room_def make_room_def distance_between_points_def arctan2_def)

end
